theory Spec2Isabelle
  imports Complex_Main
begin

section \<open>Data model of the Eight Sleep thermostat accessory\<close>

text \<open>
  The development embeds \<^verbatim>\<open>src/platformAccessory.ts\<close> (class
  \<^verbatim>\<open>EightSleepThermostatAccessory\<close>).  JavaScript numbers that carry a temperature are
  read as \<^typ>\<open>real\<close> (exact arithmetic, no NaN, no rounding of the constant 0.55); device
  levels and the HomeKit enumeration values are read as \<^typ>\<open>int\<close>.  A rejected promise
  or a thrown exception is the \<open>Inl\<close> branch of a sum; every method returns its result
  together with the accessory after the call.
\<close>

datatype side = left | right

text \<open>The private field \<^verbatim>\<open>Thermostat_data\<close> (a string-keyed record with five keys).\<close>

record thermostat_data =
  CurrentHeatingCoolingState :: int
  TargetHeatingCoolingState :: int
  CurrentTemperature :: real
  TargetTemperature :: real
  TemperatureDisplayUnits :: int

text \<open>
  The interface \<^verbatim>\<open>TwoWayTempMapper\<close> is imported from \<^verbatim>\<open>./twoWayTempMapper\<close>; only the
  three methods the accessory calls are listed, and every function of the accessory
  takes the mapper as a parameter.
\<close>

record TwoWayTempMapper =
  levelToCelsius :: "int \<Rightarrow> real"
  celsiusToLevel :: "real \<Rightarrow> int"
  formatCelsius :: "real \<Rightarrow> real"

text \<open>
  Requests sent through \<^verbatim>\<open>platformClient\<close> and \<^verbatim>\<open>accessoryClient\<close>, in the order in which
  they are issued.
\<close>

datatype client_call =
    currentLevelForSide side
  | accessoryIsOn
  | userTargetLevel
  | updateUserTargetLevel int
  | turnOnAccessory
  | turnOffAccessory

text \<open>
  Lines written to \<^verbatim>\<open>this.log\<close>.  \<open>Debug\<close> keeps the message and the number printed with
  it; the two \<^verbatim>\<open>log.error\<close> call sites of \<^verbatim>\<open>updateTargetTemperature\<close> have a constructor
  each (the mismatch line carries expected Celsius and level, then received Celsius
  and level).
\<close>

datatype log_entry =
    Debug string real
  | Warn string
  | Error_calculating int
  | Error_mismatch real int real int

datatype error = SERVICE_COMMUNICATION_FAILURE | ClientRejected

text \<open>
  The accessory object: its data, the two constructor-time fields the handlers read,
  and three histories that record its effects on the logger, on the remote clients and
  on the HomeKit service (\<^verbatim>\<open>service.updateCharacteristic\<close>).
\<close>

record accessory =
  Thermostat_data :: thermostat_data
  deviceSide :: side
  isNotResponding :: bool
  logged :: "log_entry list"
  client_calls :: "client_call list"
  pushed :: "int list"

text \<open>The values of \<^verbatim>\<open>Characteristic.CurrentHeatingCoolingState\<close> in the HomeKit protocol.\<close>

definition OFF :: int where "OFF = 0"
definition HEAT :: int where "HEAT = 1"
definition COOL :: int where "COOL = 2"

text \<open>The accessory as the constructor leaves it.\<close>

definition new_accessory :: "side \<Rightarrow> bool \<Rightarrow> accessory" where
  "new_accessory sd notResponding =
     \<lparr> Thermostat_data =
         \<lparr> CurrentHeatingCoolingState = 0, TargetHeatingCoolingState = 0,
           CurrentTemperature = 0, TargetTemperature = 0, TemperatureDisplayUnits = 1 \<rparr>,
       deviceSide = sd, isNotResponding = notResponding,
       logged = [], client_calls = [], pushed = [] \<rparr>"

section \<open>Mode derivation\<close>

definition tempsAreEqual :: "real \<Rightarrow> real \<Rightarrow> bool" where
  "tempsAreEqual current target = (let diff = \<bar>target - current\<bar> in diff \<le> 0.55)"

text \<open>
  \<^verbatim>\<open>triggerCurrentHeatingCoolingStateUpdate\<close>: the chain has three guarded branches and no
  final \<^verbatim>\<open>else\<close>, so the last alternative keeps the stored value.
\<close>

definition triggerCurrentHeatingCoolingStateUpdate :: "accessory \<Rightarrow> int \<times> accessory" where
  "triggerCurrentHeatingCoolingStateUpdate a =
     (let d = Thermostat_data a;
          currTemp = CurrentTemperature d;
          targetTemp = TargetTemperature d;
          d' = (if tempsAreEqual currTemp targetTemp \<or> TargetHeatingCoolingState d = 0
                  then d\<lparr>CurrentHeatingCoolingState := OFF\<rparr>
                else if currTemp < targetTemp
                  then d\<lparr>CurrentHeatingCoolingState := HEAT\<rparr>
                else if currTemp > targetTemp
                  then d\<lparr>CurrentHeatingCoolingState := COOL\<rparr>
                else d);
          st = CurrentHeatingCoolingState d'
      in (st, a\<lparr>Thermostat_data := d',
                pushed := pushed a @ [st],
                logged := logged a @ [Debug ''Update CurrentState:'' (of_int st)]\<rparr>))"

text \<open>
  The derivation as section 4.2 of the specification words it (\<open>deriveCurrentMode\<close>, steps
  1 to 4, with \<open>toleranceC\<close> = 0.55); the source has no function of this name, it is the
  reference the stored mode is compared with.
\<close>

definition toleranceC :: real where "toleranceC = 0.55"

definition deriveCurrentMode :: "real \<Rightarrow> real \<Rightarrow> int \<Rightarrow> int" where
  "deriveCurrentMode currentTemperatureC targetTemperatureC targetMode =
     (if targetMode = 0 then OFF
      else if \<bar>targetTemperatureC - currentTemperatureC\<bar> \<le> toleranceC then OFF
      else if currentTemperatureC < targetTemperatureC then HEAT
      else COOL)"

text \<open>The mode the specification derives from the data of an accessory.\<close>

definition derived_mode :: "thermostat_data \<Rightarrow> int" where
  "derived_mode d =
     deriveCurrentMode (CurrentTemperature d) (TargetTemperature d) (TargetHeatingCoolingState d)"

section \<open>Fetching from the remote device\<close>

text \<open>
  A call to a client appends the request to the history; the response is an argument of
  the model (\<open>Inl\<close> when the promise is rejected).  Each \<^verbatim>\<open>fetch\<close> method is split at its
  \<^verbatim>\<open>await\<close>: the part before it issues the request, the part after it (\<open>_resume\<close>) runs when
  the response arrives.
\<close>

definition issue :: "client_call \<Rightarrow> accessory \<Rightarrow> accessory" where
  "issue c a = a\<lparr>client_calls := client_calls a @ [c]\<rparr>"

definition say :: "log_entry \<Rightarrow> accessory \<Rightarrow> accessory" where
  "say l a = a\<lparr>logged := logged a @ [l]\<rparr>"

definition fetchCurrentTemp_resume ::
  "TwoWayTempMapper \<Rightarrow> error + int \<Rightarrow> accessory \<Rightarrow> (error + real) \<times> accessory" where
  "fetchCurrentTemp_resume tempMapper response a =
     (case response of
        Inl e \<Rightarrow> (Inl e, a)
      | Inr currentMeasuredLevel \<Rightarrow>
          (let currentC = levelToCelsius tempMapper currentMeasuredLevel
           in (Inr currentC,
               a\<lparr>Thermostat_data := (Thermostat_data a)\<lparr>CurrentTemperature := currentC\<rparr>\<rparr>)))"

definition fetchCurrentTemp ::
  "TwoWayTempMapper \<Rightarrow> error + int \<Rightarrow> accessory \<Rightarrow> (error + real) \<times> accessory" where
  "fetchCurrentTemp tempMapper response a =
     fetchCurrentTemp_resume tempMapper response (issue (currentLevelForSide (deviceSide a)) a)"

definition fetchTargetState_resume ::
  "error + bool \<Rightarrow> accessory \<Rightarrow> (error + int) \<times> accessory" where
  "fetchTargetState_resume response a =
     (case response of
        Inl e \<Rightarrow> (Inl e, a)
      | Inr isOn \<Rightarrow>
          (let targetState = (if isOn then 3 else 0)
           in (Inr targetState,
               a\<lparr>Thermostat_data :=
                    (Thermostat_data a)\<lparr>TargetHeatingCoolingState := targetState\<rparr>\<rparr>)))"

definition fetchTargetState :: "error + bool \<Rightarrow> accessory \<Rightarrow> (error + int) \<times> accessory" where
  "fetchTargetState response a = fetchTargetState_resume response (issue accessoryIsOn a)"

definition fetchTargetTemp_resume ::
  "TwoWayTempMapper \<Rightarrow> error + int \<Rightarrow> accessory \<Rightarrow> (error + real) \<times> accessory" where
  "fetchTargetTemp_resume tempMapper response a =
     (case response of
        Inl e \<Rightarrow> (Inl e, a)
      | Inr targetLevel \<Rightarrow>
          (let targetC = levelToCelsius tempMapper targetLevel
           in (Inr targetC,
               a\<lparr>Thermostat_data := (Thermostat_data a)\<lparr>TargetTemperature := targetC\<rparr>\<rparr>)))"

definition fetchTargetTemp ::
  "TwoWayTempMapper \<Rightarrow> error + int \<Rightarrow> accessory \<Rightarrow> (error + real) \<times> accessory" where
  "fetchTargetTemp tempMapper response a =
     fetchTargetTemp_resume tempMapper response (issue userTargetLevel a)"

subsection \<open>The aggregate fetch\<close>

text \<open>
  \<^verbatim>\<open>fetchCurrentState\<close> starts the three fetches inside \<^verbatim>\<open>Promise.all\<close>: the three requests
  are issued in the order of the array, and the three continuations run in the order in
  which the responses arrive.  That order is chosen by the environment; the model takes it
  as the argument \<open>order\<close>.  \<^verbatim>\<open>Promise.all\<close> is rejected with the first rejection, in which case
  the statement after the \<^verbatim>\<open>await\<close> never runs; the remaining continuations still run, and
  the accessory returned is the one they leave.
\<close>

datatype fetch = FetchCurrentTemp | FetchTargetState | FetchTargetTemp

record responses =
  currentLevel_response :: "error + int"
  isOn_response :: "error + bool"
  targetLevel_response :: "error + int"

definition is_completion_order :: "fetch list \<Rightarrow> bool" where
  "is_completion_order order =
     (distinct order \<and> set order = {FetchCurrentTemp, FetchTargetState, FetchTargetTemp})"

definition outcome :: "(error + 'a) \<times> accessory \<Rightarrow> error option \<times> accessory" where
  "outcome r = (case r of (Inl e, a) \<Rightarrow> (Some e, a) | (Inr _, a) \<Rightarrow> (None, a))"

fun resume :: "TwoWayTempMapper \<Rightarrow> responses \<Rightarrow> fetch \<Rightarrow> accessory \<Rightarrow> error option \<times> accessory" where
  "resume tempMapper rs FetchCurrentTemp a =
     outcome (fetchCurrentTemp_resume tempMapper (currentLevel_response rs) a)"
| "resume tempMapper rs FetchTargetState a =
     outcome (fetchTargetState_resume (isOn_response rs) a)"
| "resume tempMapper rs FetchTargetTemp a =
     outcome (fetchTargetTemp_resume tempMapper (targetLevel_response rs) a)"

fun resume_all ::
  "TwoWayTempMapper \<Rightarrow> responses \<Rightarrow> fetch list \<Rightarrow> accessory \<Rightarrow> error option \<times> accessory" where
  "resume_all tempMapper rs [] a = (None, a)"
| "resume_all tempMapper rs (f # fs) a =
     (case resume tempMapper rs f a of
        (Some e, a1) \<Rightarrow> (Some e, snd (resume_all tempMapper rs fs a1))
      | (None, a1) \<Rightarrow> resume_all tempMapper rs fs a1)"

definition fetchCurrentState ::
  "TwoWayTempMapper \<Rightarrow> fetch list \<Rightarrow> responses \<Rightarrow> accessory \<Rightarrow> (error + int) \<times> accessory" where
  "fetchCurrentState tempMapper order rs a =
     (let a0 = issue userTargetLevel
                 (issue accessoryIsOn (issue (currentLevelForSide (deviceSide a)) a))
      in case resume_all tempMapper rs order a0 of
           (Some e, a1) \<Rightarrow> (Inl e, a1)
         | (None, a1) \<Rightarrow>
             (case triggerCurrentHeatingCoolingStateUpdate a1 of
                (currStateValue, a2) \<Rightarrow> (Inr currStateValue, a2)))"

section \<open>Writing to the remote device\<close>

text \<open>
  \<^verbatim>\<open>updateTargetTemperature\<close>.  The guard is
  \<^verbatim>\<open>!targetLevel || targetLevel > 100 || targetLevel < -100\<close>; on a number, \<^verbatim>\<open>!targetLevel\<close>
  holds exactly at zero.
\<close>

definition updateTargetTemperature ::
  "TwoWayTempMapper \<Rightarrow> real \<Rightarrow> error + int \<Rightarrow> accessory \<Rightarrow> (error + real) \<times> accessory" where
  "updateTargetTemperature tempMapper newValue response a =
     (let targetC = formatCelsius tempMapper newValue;
          targetLevel = celsiusToLevel tempMapper targetC
      in if targetLevel = 0 \<or> targetLevel > 100 \<or> targetLevel < - 100
         then (Inr targetC, say (Error_calculating targetLevel) a)
         else
           (let a1 = issue (updateUserTargetLevel targetLevel) a
            in case response of
                 Inl e \<Rightarrow> (Inl e, a1)
               | Inr clientTargetLevel \<Rightarrow>
                   (let clientTargetC = levelToCelsius tempMapper clientTargetLevel;
                        a2 = a1\<lparr>Thermostat_data :=
                                  (Thermostat_data a1)\<lparr>TargetTemperature := clientTargetC\<rparr>\<rparr>;
                        a3 = (if targetC \<noteq> clientTargetC \<or> targetLevel \<noteq> clientTargetLevel
                              then say (Error_mismatch targetC targetLevel
                                          clientTargetC clientTargetLevel) a2
                              else a2)
                    in (Inr clientTargetC, a3))))"

text \<open>
  \<^verbatim>\<open>updateDeviceState\<close> is called without \<^verbatim>\<open>await\<close> and awaits nothing itself, so its body
  runs to the end before the caller continues; the power commands are not awaited and
  have no response.
\<close>

definition updateDeviceState :: "int \<Rightarrow> accessory \<Rightarrow> accessory" where
  "updateDeviceState newValue a =
     (if newValue = 3 then issue turnOnAccessory (say (Warn ''Turning on device ->'') a)
      else if newValue = 0 then say (Warn ''Turning off device ->'') (issue turnOffAccessory a)
      else a)"

definition ensureDeviceResponsiveness :: "accessory \<Rightarrow> error + unit" where
  "ensureDeviceResponsiveness a =
     (if isNotResponding a then Inl SERVICE_COMMUNICATION_FAILURE else Inr ())"

section \<open>Characteristic handlers\<close>

definition handleCurrentHeatingCoolingStateGet ::
  "TwoWayTempMapper \<Rightarrow> fetch list \<Rightarrow> responses \<Rightarrow> accessory \<Rightarrow> (error + int) \<times> accessory" where
  "handleCurrentHeatingCoolingStateGet tempMapper order rs a =
     (case ensureDeviceResponsiveness a of
        Inl e \<Rightarrow> (Inl e, a)
      | Inr _ \<Rightarrow>
          (case fetchCurrentState tempMapper order rs a of
             (Inl e, a1) \<Rightarrow> (Inl e, a1)
           | (Inr currentState, a1) \<Rightarrow>
               (Inr currentState,
                say (Debug ''GET CurrentHeatingCoolingState'' (of_int currentState)) a1)))"

definition handleCurrentTemperatureGet ::
  "TwoWayTempMapper \<Rightarrow> error + int \<Rightarrow> accessory \<Rightarrow> (error + real) \<times> accessory" where
  "handleCurrentTemperatureGet tempMapper response a =
     (case ensureDeviceResponsiveness a of
        Inl e \<Rightarrow> (Inl e, a)
      | Inr _ \<Rightarrow>
          (case fetchCurrentTemp tempMapper response a of
             (Inl e, a1) \<Rightarrow> (Inl e, a1)
           | (Inr currTemp, a1) \<Rightarrow>
               (Inr currTemp, say (Debug ''GET CurrentTemperature'' currTemp) a1)))"

definition handleTargetTemperatureGet ::
  "TwoWayTempMapper \<Rightarrow> error + int \<Rightarrow> accessory \<Rightarrow> (error + real) \<times> accessory" where
  "handleTargetTemperatureGet tempMapper response a =
     (case ensureDeviceResponsiveness a of
        Inl e \<Rightarrow> (Inl e, a)
      | Inr _ \<Rightarrow>
          (case fetchTargetTemp tempMapper response a of
             (Inl e, a1) \<Rightarrow> (Inl e, a1)
           | (Inr targetTemp, a1) \<Rightarrow>
               (Inr targetTemp, say (Debug ''GET TargetTemperature'' targetTemp) a1)))"

definition handleTargetTemperatureSet ::
  "TwoWayTempMapper \<Rightarrow> real \<Rightarrow> error + int \<Rightarrow> accessory \<Rightarrow> (error + unit) \<times> accessory" where
  "handleTargetTemperatureSet tempMapper v response a =
     (case ensureDeviceResponsiveness a of
        Inl e \<Rightarrow> (Inl e, a)
      | Inr _ \<Rightarrow>
          (case updateTargetTemperature tempMapper v response a of
             (Inl e, a1) \<Rightarrow> (Inl e, a1)
           | (Inr newTemp, a1) \<Rightarrow>
               (Inr (),
                snd (triggerCurrentHeatingCoolingStateUpdate
                       (say (Debug ''SET TargetTemperature:'' newTemp) a1)))))"

definition handleTargetHeatingCoolingStateGet ::
  "error + bool \<Rightarrow> accessory \<Rightarrow> (error + int) \<times> accessory" where
  "handleTargetHeatingCoolingStateGet response a =
     (case ensureDeviceResponsiveness a of
        Inl e \<Rightarrow> (Inl e, a)
      | Inr _ \<Rightarrow>
          (case fetchTargetState response a of
             (Inl e, a1) \<Rightarrow> (Inl e, a1)
           | (Inr targetState, a1) \<Rightarrow>
               (Inr targetState,
                say (Debug ''GET TargetHeatingCoolingState'' (of_int targetState)) a1)))"

definition handleTargetHeatingCoolingStateSet ::
  "int \<Rightarrow> accessory \<Rightarrow> (error + unit) \<times> accessory" where
  "handleTargetHeatingCoolingStateSet v a =
     (case ensureDeviceResponsiveness a of
        Inl e \<Rightarrow> (Inl e, a)
      | Inr _ \<Rightarrow>
          (let a1 = (if TargetHeatingCoolingState (Thermostat_data a) \<noteq> v
                     then updateDeviceState v a else a);
               a2 = a1\<lparr>Thermostat_data :=
                         (Thermostat_data a1)\<lparr>TargetHeatingCoolingState := v\<rparr>\<rparr>;
               a3 = say (Debug ''SET TargetHeatingCoolingState:'' (of_int v)) a2
           in (Inr (), snd (triggerCurrentHeatingCoolingStateUpdate a3))))"

definition handleTemperatureDisplayUnitsGet :: "accessory \<Rightarrow> (error + int) \<times> accessory" where
  "handleTemperatureDisplayUnitsGet a =
     (case ensureDeviceResponsiveness a of
        Inl e \<Rightarrow> (Inl e, a)
      | Inr _ \<Rightarrow>
          (let tempUnits = TemperatureDisplayUnits (Thermostat_data a)
           in (Inr tempUnits, say (Debug ''GET TemperatureDisplayUnits'' (of_int tempUnits)) a)))"

definition handleTemperatureDisplayUnitsSet ::
  "int \<Rightarrow> accessory \<Rightarrow> (error + unit) \<times> accessory" where
  "handleTemperatureDisplayUnitsSet v a =
     (case ensureDeviceResponsiveness a of
        Inl e \<Rightarrow> (Inl e, a)
      | Inr _ \<Rightarrow>
          (Inr (),
           say (Debug ''SET TemperatureDisplayUnits:'' (of_int v))
             (a\<lparr>Thermostat_data := (Thermostat_data a)\<lparr>TemperatureDisplayUnits := v\<rparr>\<rparr>)))"

section \<open>Reachable accessories\<close>

text \<open>
  One call of a handler by the HomeKit layer, with the responses the clients give during
  the call.  The target mode is registered with the valid values OFF (0) and AUTO (3),
  and a completion order names each of the three fetches once.
\<close>

datatype request =
    CurrentHeatingCoolingStateGet "fetch list" responses
  | CurrentTemperatureGet "error + int"
  | TargetTemperatureGet "error + int"
  | TargetTemperatureSet real "error + int"
  | TargetHeatingCoolingStateGet "error + bool"
  | TargetHeatingCoolingStateSet int
  | TemperatureDisplayUnitsGet
  | TemperatureDisplayUnitsSet int

fun valid_request :: "request \<Rightarrow> bool" where
  "valid_request (CurrentHeatingCoolingStateGet order rs) = is_completion_order order"
| "valid_request (TargetHeatingCoolingStateSet v) = (v = 0 \<or> v = 3)"
| "valid_request _ = True"

fun handle :: "TwoWayTempMapper \<Rightarrow> request \<Rightarrow> accessory \<Rightarrow> accessory" where
  "handle m (CurrentHeatingCoolingStateGet order rs) a =
     snd (handleCurrentHeatingCoolingStateGet m order rs a)"
| "handle m (CurrentTemperatureGet r) a = snd (handleCurrentTemperatureGet m r a)"
| "handle m (TargetTemperatureGet r) a = snd (handleTargetTemperatureGet m r a)"
| "handle m (TargetTemperatureSet v r) a = snd (handleTargetTemperatureSet m v r a)"
| "handle m (TargetHeatingCoolingStateGet r) a = snd (handleTargetHeatingCoolingStateGet r a)"
| "handle m (TargetHeatingCoolingStateSet v) a = snd (handleTargetHeatingCoolingStateSet v a)"
| "handle m TemperatureDisplayUnitsGet a = snd (handleTemperatureDisplayUnitsGet a)"
| "handle m (TemperatureDisplayUnitsSet v) a = snd (handleTemperatureDisplayUnitsSet v a)"

inductive reachable :: "TwoWayTempMapper \<Rightarrow> accessory \<Rightarrow> bool" for m :: TwoWayTempMapper where
  start: "reachable m (new_accessory sd notResponding)"
| step: "reachable m a \<Longrightarrow> valid_request r \<Longrightarrow> reachable m (handle m r a)"

section \<open>A mapper for concrete evaluations\<close>

text \<open>
  The accessory receives its mapper from the module \<^verbatim>\<open>twoWayTempMapper\<close>, whose table is
  not part of this development.  The theorems below hold for every mapper; where they
  are evaluated at a concrete input, this mapper is used: ten levels per degree around
  27 degrees Celsius, requests clamped to the range the accessory registers
  (\<^verbatim>\<open>minTempC\<close> = 10, \<^verbatim>\<open>maxTempC\<close> = 45.1).
\<close>

definition sampleMapper :: TwoWayTempMapper where
  "sampleMapper =
     \<lparr> levelToCelsius = (\<lambda>level. 27 + of_int level / 10),
       celsiusToLevel = (\<lambda>tempC. \<lfloor>(tempC - 27) * 10\<rfloor>),
       formatCelsius = (\<lambda>raw. max 10 (min 45.1 raw)) \<rparr>"

text \<open>A responsive accessory of the left side, fresh from the constructor.\<close>

definition fresh :: accessory where
  "fresh = new_accessory left False"

text \<open>The mismatch lines of a log.\<close>

fun is_mismatch :: "log_entry \<Rightarrow> bool" where
  "is_mismatch (Error_mismatch _ _ _ _) = True"
| "is_mismatch _ = False"

text \<open>The response to a fetch is a rejection.\<close>

fun rejected :: "responses \<Rightarrow> fetch \<Rightarrow> bool" where
  "rejected rs FetchCurrentTemp = isl (currentLevel_response rs)"
| "rejected rs FetchTargetState = isl (isOn_response rs)"
| "rejected rs FetchTargetTemp = isl (targetLevel_response rs)"

text \<open>The stored mode agrees with the derivation from the three other fields.\<close>

definition in_sync :: "accessory \<Rightarrow> bool" where
  "in_sync a =
     (CurrentHeatingCoolingState (Thermostat_data a) = derived_mode (Thermostat_data a))"

section \<open>Properties of the mode derivation\<close>

lemmas fetch_defs = fetchCurrentTemp_resume_def fetchTargetState_resume_def
  fetchTargetTemp_resume_def outcome_def Let_def

lemmas handler_defs = ensureDeviceResponsiveness_def handleCurrentHeatingCoolingStateGet_def
  handleCurrentTemperatureGet_def handleTargetTemperatureGet_def handleTargetTemperatureSet_def
  handleTargetHeatingCoolingStateGet_def handleTargetHeatingCoolingStateSet_def
  handleTemperatureDisplayUnitsGet_def handleTemperatureDisplayUnitsSet_def

lemmas sample_defs = sampleMapper_def fresh_def new_accessory_def

lemma trigger_effects:
  "triggerCurrentHeatingCoolingStateUpdate a =
     (derived_mode (Thermostat_data a),
      a\<lparr>Thermostat_data :=
           (Thermostat_data a)\<lparr>CurrentHeatingCoolingState := derived_mode (Thermostat_data a)\<rparr>,
        pushed := pushed a @ [derived_mode (Thermostat_data a)],
        logged := logged a @
          [Debug ''Update CurrentState:'' (of_int (derived_mode (Thermostat_data a)))]\<rparr>)"
  by (simp add: triggerCurrentHeatingCoolingStateUpdate_def Let_def tempsAreEqual_def
      derived_mode_def deriveCurrentMode_def toleranceC_def)

lemmas run_defs = handler_defs updateTargetTemperature_def updateDeviceState_def
  fetchCurrentTemp_def fetchTargetTemp_def fetchTargetState_def fetch_defs
  trigger_effects derived_mode_def deriveCurrentMode_def toleranceC_def say_def issue_def

lemma trigger_in_sync: "in_sync (snd (triggerCurrentHeatingCoolingStateUpdate a))"
  by (simp add: in_sync_def trigger_effects derived_mode_def)

text \<open>
  C1.  Whatever the accessory holds, the mode that
  \<^verbatim>\<open>triggerCurrentHeatingCoolingStateUpdate\<close> stores and returns is OFF when the target mode
  is 0 or the two temperatures differ by at most 0.55, HEAT when neither holds and the
  current temperature is below the target, and COOL otherwise.
\<close>

theorem trigger_derives_mode:
  "fst (triggerCurrentHeatingCoolingStateUpdate a) =
     (if TargetHeatingCoolingState (Thermostat_data a) = 0
         \<or> \<bar>TargetTemperature (Thermostat_data a) - CurrentTemperature (Thermostat_data a)\<bar>
             \<le> 0.55
      then OFF
      else if CurrentTemperature (Thermostat_data a) < TargetTemperature (Thermostat_data a)
      then HEAT
      else COOL)
   \<and> CurrentHeatingCoolingState
         (Thermostat_data (snd (triggerCurrentHeatingCoolingStateUpdate a))) =
       fst (triggerCurrentHeatingCoolingStateUpdate a)"
  by (simp add: triggerCurrentHeatingCoolingStateUpdate_def Let_def tempsAreEqual_def)

text \<open>
  C1 at a concrete accessory: target mode AUTO, 18 degrees measured, 24 degrees wanted;
  the mode is HEAT.
\<close>

theorem trigger_derives_mode_witness:
  "fst (triggerCurrentHeatingCoolingStateUpdate
          (fresh\<lparr>Thermostat_data :=
             \<lparr> CurrentHeatingCoolingState = 0, TargetHeatingCoolingState = 3,
               CurrentTemperature = 18, TargetTemperature = 24,
               TemperatureDisplayUnits = 1 \<rparr>\<rparr>)) = HEAT"
  using trigger_derives_mode [of "fresh\<lparr>Thermostat_data :=
             \<lparr> CurrentHeatingCoolingState = 0, TargetHeatingCoolingState = 3,
               CurrentTemperature = 18, TargetTemperature = 24,
               TemperatureDisplayUnits = 1 \<rparr>\<rparr>"]
  by (simp add: sample_defs)

section \<open>The aggregate fetch\<close>

lemma resume_success:
  assumes "currentLevel_response rs = Inr clev" "isOn_response rs = Inr isOn"
    "targetLevel_response rs = Inr tlev"
  shows "resume m rs f a =
     (None, a\<lparr>Thermostat_data := (Thermostat_data a)\<lparr>
        TargetHeatingCoolingState :=
          (if f = FetchTargetState then (if isOn then 3 else 0)
           else TargetHeatingCoolingState (Thermostat_data a)),
        CurrentTemperature :=
          (if f = FetchCurrentTemp then levelToCelsius m clev
           else CurrentTemperature (Thermostat_data a)),
        TargetTemperature :=
          (if f = FetchTargetTemp then levelToCelsius m tlev
           else TargetTemperature (Thermostat_data a))\<rparr>\<rparr>)"
  using assms by (cases f) (simp_all add: fetch_defs)

lemma resume_all_success:
  assumes "currentLevel_response rs = Inr clev" "isOn_response rs = Inr isOn"
    "targetLevel_response rs = Inr tlev"
  shows "resume_all m rs order a =
     (None, a\<lparr>Thermostat_data := (Thermostat_data a)\<lparr>
        TargetHeatingCoolingState :=
          (if FetchTargetState \<in> set order then (if isOn then 3 else 0)
           else TargetHeatingCoolingState (Thermostat_data a)),
        CurrentTemperature :=
          (if FetchCurrentTemp \<in> set order then levelToCelsius m clev
           else CurrentTemperature (Thermostat_data a)),
        TargetTemperature :=
          (if FetchTargetTemp \<in> set order then levelToCelsius m tlev
           else TargetTemperature (Thermostat_data a))\<rparr>\<rparr>)"
proof (induction order arbitrary: a)
  case Nil
  show ?case by simp
next
  case (Cons f fs)
  show ?case
    by (cases f) (simp_all add: resume_success [OF assms] Cons.IH del: resume.simps)
qed

lemma resume_frame:
  "pushed (snd (resume m rs f a)) = pushed a
   \<and> logged (snd (resume m rs f a)) = logged a
   \<and> client_calls (snd (resume m rs f a)) = client_calls a
   \<and> CurrentHeatingCoolingState (Thermostat_data (snd (resume m rs f a))) =
       CurrentHeatingCoolingState (Thermostat_data a)"
  by (cases f) (simp_all add: fetch_defs split: sum.splits)

lemma resume_all_frame:
  "pushed (snd (resume_all m rs order a)) = pushed a
   \<and> logged (snd (resume_all m rs order a)) = logged a
   \<and> client_calls (snd (resume_all m rs order a)) = client_calls a
   \<and> CurrentHeatingCoolingState (Thermostat_data (snd (resume_all m rs order a))) =
       CurrentHeatingCoolingState (Thermostat_data a)"
proof (induction order arbitrary: a)
  case Nil
  show ?case by simp
next
  case (Cons f fs)
  obtain e a1 where r: "resume m rs f a = (e, a1)"
    by (cases "resume m rs f a")
  have f1: "pushed a1 = pushed a \<and> logged a1 = logged a \<and> client_calls a1 = client_calls a
     \<and> CurrentHeatingCoolingState (Thermostat_data a1) =
         CurrentHeatingCoolingState (Thermostat_data a)"
    using resume_frame [of m rs f a] r by simp
  show ?case
    using Cons.IH [of a1] f1 r by (cases e) simp_all
qed

lemma resume_rejected: "rejected rs f \<Longrightarrow> fst (resume m rs f a) \<noteq> None"
  by (cases f) (auto simp add: fetch_defs isl_def)

lemma resume_all_rejected:
  "\<exists>f \<in> set order. rejected rs f \<Longrightarrow> fst (resume_all m rs order a) \<noteq> None"
proof (induction order arbitrary: a)
  case Nil
  then show ?case by simp
next
  case (Cons f fs)
  obtain e a1 where r: "resume m rs f a = (e, a1)"
    by (cases "resume m rs f a")
  show ?case
  proof (cases e)
    case None
    with r resume_rejected [of rs f m a] have "\<not> rejected rs f"
      by auto
    with Cons.prems have "\<exists>f \<in> set fs. rejected rs f"
      by auto
    from Cons.IH [OF this, of a1] r None show ?thesis
      by simp
  next
    case (Some x)
    with r show ?thesis
      by simp
  qed
qed

text \<open>
  C9.  Let the three responses arrive in any order that names each fetch once.  When all
  three are answers, \<^verbatim>\<open>fetchCurrentState\<close> returns the mode derived from the three fetched
  values, whatever the order was; the data then holds the three fetched values and that
  mode, the three requests were issued, and the mode was pushed once.  When some response
  is a rejection, the call fails and the mode is neither recomputed nor pushed: the
  recomputation runs only after all three fetches have resolved.
\<close>

theorem fetchCurrentState_join:
  assumes "is_completion_order order"
  shows "(currentLevel_response rs = Inr clev \<and> isOn_response rs = Inr isOn
            \<and> targetLevel_response rs = Inr tlev \<longrightarrow>
          fst (fetchCurrentState m order rs a) =
            Inr (deriveCurrentMode (levelToCelsius m clev) (levelToCelsius m tlev)
                   (if isOn then 3 else 0))
          \<and> Thermostat_data (snd (fetchCurrentState m order rs a)) =
             \<lparr> CurrentHeatingCoolingState =
                 deriveCurrentMode (levelToCelsius m clev) (levelToCelsius m tlev)
                   (if isOn then 3 else 0),
               TargetHeatingCoolingState = (if isOn then 3 else 0),
               CurrentTemperature = levelToCelsius m clev,
               TargetTemperature = levelToCelsius m tlev,
               TemperatureDisplayUnits = TemperatureDisplayUnits (Thermostat_data a) \<rparr>
          \<and> client_calls (snd (fetchCurrentState m order rs a)) =
             client_calls a @ [currentLevelForSide (deviceSide a), accessoryIsOn, userTargetLevel]
          \<and> pushed (snd (fetchCurrentState m order rs a)) =
             pushed a @ [deriveCurrentMode (levelToCelsius m clev) (levelToCelsius m tlev)
                           (if isOn then 3 else 0)])
      \<and> ((\<exists>f. rejected rs f) \<longrightarrow>
          isl (fst (fetchCurrentState m order rs a))
          \<and> pushed (snd (fetchCurrentState m order rs a)) = pushed a
          \<and> CurrentHeatingCoolingState (Thermostat_data (snd (fetchCurrentState m order rs a))) =
             CurrentHeatingCoolingState (Thermostat_data a))"
proof (intro conjI impI)
  assume ok: "currentLevel_response rs = Inr clev \<and> isOn_response rs = Inr isOn
            \<and> targetLevel_response rs = Inr tlev"
  let ?a0 = "issue userTargetLevel
               (issue accessoryIsOn (issue (currentLevelForSide (deviceSide a)) a))"
  let ?mode = "deriveCurrentMode (levelToCelsius m clev) (levelToCelsius m tlev)
                 (if isOn then 3 else 0)"
  have mem: "FetchCurrentTemp \<in> set order" "FetchTargetState \<in> set order"
    "FetchTargetTemp \<in> set order"
    using assms by (simp_all add: is_completion_order_def)
  have ra: "resume_all m rs order ?a0 =
     (None, ?a0\<lparr>Thermostat_data := (Thermostat_data ?a0)\<lparr>
        TargetHeatingCoolingState := (if isOn then 3 else 0),
        CurrentTemperature := levelToCelsius m clev,
        TargetTemperature := levelToCelsius m tlev\<rparr>\<rparr>)"
    using resume_all_success [of rs clev isOn tlev m order ?a0] ok mem by simp
  have full: "fetchCurrentState m order rs a =
     (Inr ?mode,
      ?a0\<lparr>Thermostat_data := (Thermostat_data ?a0)\<lparr>
             TargetHeatingCoolingState := (if isOn then 3 else 0),
             CurrentTemperature := levelToCelsius m clev,
             TargetTemperature := levelToCelsius m tlev,
             CurrentHeatingCoolingState := ?mode\<rparr>,
           pushed := pushed ?a0 @ [?mode],
           logged := logged ?a0 @ [Debug ''Update CurrentState:'' (of_int ?mode)]\<rparr>)"
    by (simp add: fetchCurrentState_def Let_def ra trigger_effects derived_mode_def)
  show "fst (fetchCurrentState m order rs a) = Inr ?mode"
    by (simp add: full)
  show "Thermostat_data (snd (fetchCurrentState m order rs a)) =
             \<lparr> CurrentHeatingCoolingState = ?mode,
               TargetHeatingCoolingState = (if isOn then 3 else 0),
               CurrentTemperature = levelToCelsius m clev,
               TargetTemperature = levelToCelsius m tlev,
               TemperatureDisplayUnits = TemperatureDisplayUnits (Thermostat_data a) \<rparr>"
    unfolding full by (rule thermostat_data.equality) (simp_all add: issue_def)
  show "client_calls (snd (fetchCurrentState m order rs a)) =
          client_calls a @ [currentLevelForSide (deviceSide a), accessoryIsOn, userTargetLevel]"
    by (simp add: full issue_def)
  show "pushed (snd (fetchCurrentState m order rs a)) = pushed a @ [?mode]"
    by (simp add: full issue_def)
next
  assume rej: "\<exists>f. rejected rs f"
  let ?a0 = "issue userTargetLevel
               (issue accessoryIsOn (issue (currentLevelForSide (deviceSide a)) a))"
  have "set order = UNIV"
    using assms fetch.exhaust by (auto simp add: is_completion_order_def)
  with rej have "\<exists>f \<in> set order. rejected rs f"
    by simp
  from resume_all_rejected [OF this, of m ?a0]
  obtain e a1 where r: "resume_all m rs order ?a0 = (Some e, a1)"
    by (cases "resume_all m rs order ?a0") auto
  have fr: "pushed a1 = pushed a \<and> CurrentHeatingCoolingState (Thermostat_data a1) =
       CurrentHeatingCoolingState (Thermostat_data a)"
    using resume_all_frame [of m rs order ?a0] r by (simp add: issue_def)
  have full: "fetchCurrentState m order rs a = (Inl e, a1)"
    by (simp add: fetchCurrentState_def Let_def r)
  show "isl (fst (fetchCurrentState m order rs a))"
    by (simp add: full)
  show "pushed (snd (fetchCurrentState m order rs a)) = pushed a"
    using fr by (simp add: full)
  show "CurrentHeatingCoolingState (Thermostat_data (snd (fetchCurrentState m order rs a))) =
          CurrentHeatingCoolingState (Thermostat_data a)"
    using fr by (simp add: full)
qed

text \<open>
  C9 at a concrete input: the target temperature arrives first and the power state last;
  with all three answers the mode is HEAT (20 degrees measured, 30 wanted, device on),
  and with the measured level rejected the call fails.
\<close>

theorem fetchCurrentState_join_witness:
  "is_completion_order [FetchTargetTemp, FetchCurrentTemp, FetchTargetState]
   \<and> fst (fetchCurrentState sampleMapper [FetchTargetTemp, FetchCurrentTemp, FetchTargetState]
          \<lparr>currentLevel_response = Inr (- 70), isOn_response = Inr True,
            targetLevel_response = Inr 30\<rparr> fresh) = Inr HEAT
   \<and> isl (fst (fetchCurrentState sampleMapper
          [FetchTargetTemp, FetchCurrentTemp, FetchTargetState]
          \<lparr>currentLevel_response = Inl ClientRejected, isOn_response = Inr True,
            targetLevel_response = Inr 30\<rparr> fresh))"
proof -
  let ?order = "[FetchTargetTemp, FetchCurrentTemp, FetchTargetState]"
  let ?ok = "\<lparr>currentLevel_response = Inr (- 70), isOn_response = Inr True,
               targetLevel_response = Inr 30\<rparr>"
  let ?bad = "\<lparr>currentLevel_response = Inl ClientRejected, isOn_response = Inr True,
                targetLevel_response = Inr 30\<rparr>"
  have h: "is_completion_order ?order"
    by (auto simp add: is_completion_order_def)
  have "rejected ?bad FetchCurrentTemp"
    by simp
  then have ex: "\<exists>f. rejected ?bad f"
    by (rule exI)
  have "isl (fst (fetchCurrentState sampleMapper ?order ?bad fresh))"
    using fetchCurrentState_join [OF h, of ?bad 0 True 0 sampleMapper fresh] ex by blast
  moreover have "fst (fetchCurrentState sampleMapper ?order ?ok fresh) = Inr HEAT"
    using fetchCurrentState_join [OF h, of ?ok "- 70" True 30 sampleMapper fresh]
    by (simp add: sampleMapper_def deriveCurrentMode_def toleranceC_def)
  ultimately show ?thesis
    using h by simp
qed

section \<open>Writing the target temperature\<close>

lemma update_aborts:
  assumes "celsiusToLevel m (formatCelsius m v) = 0
     \<or> celsiusToLevel m (formatCelsius m v) > 100
     \<or> celsiusToLevel m (formatCelsius m v) < - 100"
  shows "updateTargetTemperature m v r a =
     (Inr (formatCelsius m v),
      say (Error_calculating (celsiusToLevel m (formatCelsius m v))) a)"
  using assms by (auto simp add: updateTargetTemperature_def Let_def)

lemma update_sends:
  assumes "celsiusToLevel m (formatCelsius m v) \<noteq> 0"
    and "celsiusToLevel m (formatCelsius m v) \<le> 100"
    and "- 100 \<le> celsiusToLevel m (formatCelsius m v)"
  shows "updateTargetTemperature m v (Inr echoed) a =
     (Inr (levelToCelsius m echoed),
      (if formatCelsius m v \<noteq> levelToCelsius m echoed
          \<or> celsiusToLevel m (formatCelsius m v) \<noteq> echoed
       then say (Error_mismatch (formatCelsius m v) (celsiusToLevel m (formatCelsius m v))
                   (levelToCelsius m echoed) echoed)
       else id)
        ((issue (updateUserTargetLevel (celsiusToLevel m (formatCelsius m v))) a)
           \<lparr>Thermostat_data :=
               (Thermostat_data a)\<lparr>TargetTemperature := levelToCelsius m echoed\<rparr>\<rparr>))"
  using assms by (simp add: updateTargetTemperature_def Let_def issue_def)

text \<open>
  C4.  Take a call of the target-temperature setter that is not aborted (the level of the
  normalized request is not 0 and lies in [-100, 100]) and to which the remote answers
  with the level it committed.  Then the call succeeds, the stored target temperature is
  \<^verbatim>\<open>levelToCelsius\<close> of the echoed level, and the log gains exactly one mismatch line when
  the echoed level differs from the level sent or its Celsius value differs from the
  normalized request, and no mismatch line otherwise.
\<close>

theorem write_adopts_echoed_level:
  assumes "\<not> isNotResponding a"
    and "targetC = formatCelsius m v" and "targetLevel = celsiusToLevel m targetC"
    and "targetLevel \<noteq> 0" and "- 100 \<le> targetLevel" and "targetLevel \<le> 100"
    and "a' = snd (handleTargetTemperatureSet m v (Inr echoed) a)"
  shows "fst (updateTargetTemperature m v (Inr echoed) a) = Inr (levelToCelsius m echoed)
    \<and> fst (handleTargetTemperatureSet m v (Inr echoed) a) = Inr ()
    \<and> TargetTemperature (Thermostat_data a') = levelToCelsius m echoed
    \<and> client_calls a' = client_calls a @ [updateUserTargetLevel targetLevel]
    \<and> filter is_mismatch (logged a') =
        filter is_mismatch (logged a) @
          (if echoed \<noteq> targetLevel \<or> levelToCelsius m echoed \<noteq> targetC
           then [Error_mismatch targetC targetLevel (levelToCelsius m echoed) echoed]
           else [])"
  using assms
  by (auto simp add: handleTargetTemperatureSet_def ensureDeviceResponsiveness_def
      update_sends trigger_effects say_def issue_def)

text \<open>
  C4 at a concrete input: 30 degrees are requested (level 30) and the remote commits
  level 31; the stored target is 30.1 degrees and the log holds one mismatch line.
\<close>

theorem write_adopts_echoed_level_witness:
  "\<not> isNotResponding fresh
   \<and> celsiusToLevel sampleMapper (formatCelsius sampleMapper 30) = 30
   \<and> fst (handleTargetTemperatureSet sampleMapper 30 (Inr 31) fresh) = Inr ()
   \<and> TargetTemperature (Thermostat_data
        (snd (handleTargetTemperatureSet sampleMapper 30 (Inr 31) fresh))) = 30.1
   \<and> filter is_mismatch
        (logged (snd (handleTargetTemperatureSet sampleMapper 30 (Inr 31) fresh))) =
       [Error_mismatch 30 30 30.1 31]"
proof -
  have h1: "\<not> isNotResponding fresh"
    by (simp add: sample_defs)
  have h2: "(30::real) = formatCelsius sampleMapper 30"
    by (simp add: sampleMapper_def)
  have h3: "(30::int) = celsiusToLevel sampleMapper 30"
    by (simp add: sampleMapper_def)
  have l: "logged fresh = []"
    by (simp add: sample_defs)
  have c: "levelToCelsius sampleMapper 31 = 30.1"
    by (simp add: sampleMapper_def)
  show ?thesis
    using write_adopts_echoed_level [OF h1 h2 h3 _ _ _ refl, of 31]
      h1 h2 [symmetric] h3 l c
    by simp
qed

text \<open>
  C5, as amended.  When the level of the normalized request lies outside [-100, 100],
  \<^verbatim>\<open>updateTargetTemperature\<close> hands its caller the normalized request
  \<^verbatim>\<open>formatCelsius(requested)\<close>, changes no field of \<^verbatim>\<open>Thermostat_data\<close>, issues no request
  and logs the error line; the handler \<^verbatim>\<open>handleTargetTemperatureSet\<close> then succeeds and
  changes nothing of the data but the stored current mode, which it recomputes.
\<close>

theorem aborted_write_returns_normalized_request:
  assumes "targetLevel = celsiusToLevel m (formatCelsius m v)"
    and "targetLevel > 100 \<or> targetLevel < - 100"
  shows "fst (updateTargetTemperature m v r a) = Inr (formatCelsius m v)
    \<and> Thermostat_data (snd (updateTargetTemperature m v r a)) = Thermostat_data a
    \<and> client_calls (snd (updateTargetTemperature m v r a)) = client_calls a
    \<and> logged (snd (updateTargetTemperature m v r a)) = logged a @ [Error_calculating targetLevel]
    \<and> (\<not> isNotResponding a \<longrightarrow>
         fst (handleTargetTemperatureSet m v r a) = Inr ()
         \<and> Thermostat_data (snd (handleTargetTemperatureSet m v r a)) =
            (Thermostat_data a)\<lparr>CurrentHeatingCoolingState := derived_mode (Thermostat_data a)\<rparr>
         \<and> client_calls (snd (handleTargetTemperatureSet m v r a)) = client_calls a)"
  using assms
  by (auto simp add: handleTargetTemperatureSet_def ensureDeviceResponsiveness_def
      update_aborts trigger_effects say_def)

text \<open>
  C5 as amended, at a concrete input: 45 degrees map to level 180; the caller gets 45 back
  and the data of the fresh accessory is unchanged.
\<close>

theorem aborted_write_returns_normalized_request_witness:
  "celsiusToLevel sampleMapper (formatCelsius sampleMapper 45) = 180
   \<and> fst (updateTargetTemperature sampleMapper 45 (Inr 0) fresh) = Inr 45
   \<and> Thermostat_data (snd (updateTargetTemperature sampleMapper 45 (Inr 0) fresh)) =
       Thermostat_data fresh
   \<and> client_calls (snd (handleTargetTemperatureSet sampleMapper 45 (Inr 0) fresh)) = []"
proof -
  have h1: "(180::int) = celsiusToLevel sampleMapper (formatCelsius sampleMapper 45)"
    by (simp add: sampleMapper_def)
  have h2: "(180::int) > 100 \<or> (180::int) < - 100"
    by simp
  have f: "formatCelsius sampleMapper 45 = 45" "\<not> isNotResponding fresh"
    "client_calls fresh = []"
    by (simp_all add: sample_defs)
  show ?thesis
    using aborted_write_returns_normalized_request [OF h1 h2, of "Inr 0" fresh] h1 f
    by simp
qed

text \<open>
  C5 as stated fails.  After a successful write the stored target is 30 degrees; a request
  of 45 degrees maps to level 180 and is aborted, and the caller receives 45, the
  normalized request, not the stored 30.  On an accessory whose stored mode is stale
  (OFF, with 20 degrees measured, target 0 and mode AUTO), the handler of the aborted
  write changes the stored current mode to COOL.
\<close>

theorem aborted_write_not_last_known_good:
  "TargetTemperature (Thermostat_data
      (snd (handleTargetTemperatureSet sampleMapper 30 (Inr 30) fresh))) = 30
   \<and> celsiusToLevel sampleMapper (formatCelsius sampleMapper 45) = 180
   \<and> fst (updateTargetTemperature sampleMapper 45 (Inr 0)
        (snd (handleTargetTemperatureSet sampleMapper 30 (Inr 30) fresh))) = Inr 45
   \<and> fst (updateTargetTemperature sampleMapper 45 (Inr 0)
        (snd (handleTargetTemperatureSet sampleMapper 30 (Inr 30) fresh))) \<noteq> Inr 30
   \<and> CurrentHeatingCoolingState (Thermostat_data
        (snd (handleCurrentTemperatureGet sampleMapper (Inr (- 70))
           (snd (handleTargetHeatingCoolingStateSet 3 fresh))))) = OFF
   \<and> CurrentHeatingCoolingState (Thermostat_data
        (snd (handleTargetTemperatureSet sampleMapper 45 (Inr 0)
           (snd (handleCurrentTemperatureGet sampleMapper (Inr (- 70))
              (snd (handleTargetHeatingCoolingStateSet 3 fresh))))))) = COOL"
  by (simp add: run_defs sample_defs OFF_def COOL_def)

text \<open>
  C6.  When \<^verbatim>\<open>celsiusToLevel\<close> of the normalized request is exactly 0,
  \<^verbatim>\<open>updateTargetTemperature\<close> takes the abort branch: it logs the error line, issues no
  request to the client and leaves \<^verbatim>\<open>Thermostat_data\<close>, hence the stored target
  temperature, as it was.
\<close>

theorem level_zero_takes_abort_branch:
  assumes "celsiusToLevel m (formatCelsius m v) = 0"
  shows "updateTargetTemperature m v r a = (Inr (formatCelsius m v), say (Error_calculating 0) a)
    \<and> logged (snd (updateTargetTemperature m v r a)) = logged a @ [Error_calculating 0]
    \<and> client_calls (snd (updateTargetTemperature m v r a)) = client_calls a
    \<and> Thermostat_data (snd (updateTargetTemperature m v r a)) = Thermostat_data a"
  using assms by (simp add: updateTargetTemperature_def Let_def say_def)

text \<open>
  C6 at a concrete input: 27.05 degrees map to level 0, and the write is dropped.
\<close>

theorem level_zero_takes_abort_branch_witness:
  "celsiusToLevel sampleMapper (formatCelsius sampleMapper 27.05) = 0
   \<and> updateTargetTemperature sampleMapper 27.05 (Inr 1) fresh =
       (Inr 27.05, say (Error_calculating 0) fresh)"
proof -
  have h: "celsiusToLevel sampleMapper (formatCelsius sampleMapper 27.05) = 0"
    by (simp add: sampleMapper_def)
  show ?thesis
    using h level_zero_takes_abort_branch [OF h, of "Inr 1" fresh]
    by (simp add: sampleMapper_def)
qed

text \<open>
  C2.  The claim has the write aborted exactly when the level lies outside [-100, 100].
  At a request of 27 degrees the level is 0, inside the range, and the write is aborted
  all the same: the result is the normalized request, the only effect is the error line,
  no request reaches the client and the stored target stays 0.
\<close>

theorem level_zero_write_is_dropped:
  "celsiusToLevel sampleMapper (formatCelsius sampleMapper 27) = 0
   \<and> updateTargetTemperature sampleMapper 27 (Inr 0) fresh =
       (Inr 27, fresh\<lparr>logged := [Error_calculating 0]\<rparr>)
   \<and> client_calls (snd (updateTargetTemperature sampleMapper 27 (Inr 0) fresh)) = []
   \<and> TargetTemperature
        (Thermostat_data (snd (updateTargetTemperature sampleMapper 27 (Inr 0) fresh))) = 0"
  by (simp add: updateTargetTemperature_def Let_def say_def sample_defs)

text \<open>
  C2 at the same input, read off the evaluation above: the level 0 lies inside the range
  and the request for it is not among the requests issued.
\<close>

theorem level_zero_write_is_dropped_witness:
  "- 100 \<le> celsiusToLevel sampleMapper (formatCelsius sampleMapper 27)
   \<and> celsiusToLevel sampleMapper (formatCelsius sampleMapper 27) \<le> 100
   \<and> updateUserTargetLevel (celsiusToLevel sampleMapper (formatCelsius sampleMapper 27))
        \<notin> set (client_calls (snd (updateTargetTemperature sampleMapper 27 (Inr 0) fresh)))"
  using level_zero_write_is_dropped by (simp add: sample_defs)

section \<open>The responsiveness gate\<close>

text \<open>
  C8.  When \<^verbatim>\<open>isNotResponding\<close> is set, each of the eight handlers fails with
  \<^verbatim>\<open>SERVICE_COMMUNICATION_FAILURE\<close> and returns the accessory exactly as it found it: no
  field of the data is changed, nothing is logged, no request is issued to a client and
  nothing is pushed to the service.
\<close>

theorem unresponsive_device_fails_first:
  assumes "isNotResponding a"
  shows "handleCurrentHeatingCoolingStateGet m order rs a = (Inl SERVICE_COMMUNICATION_FAILURE, a)
    \<and> handleCurrentTemperatureGet m r1 a = (Inl SERVICE_COMMUNICATION_FAILURE, a)
    \<and> handleTargetTemperatureGet m r2 a = (Inl SERVICE_COMMUNICATION_FAILURE, a)
    \<and> handleTargetTemperatureSet m v r3 a = (Inl SERVICE_COMMUNICATION_FAILURE, a)
    \<and> handleTargetHeatingCoolingStateGet r4 a = (Inl SERVICE_COMMUNICATION_FAILURE, a)
    \<and> handleTargetHeatingCoolingStateSet w a = (Inl SERVICE_COMMUNICATION_FAILURE, a)
    \<and> handleTemperatureDisplayUnitsGet a = (Inl SERVICE_COMMUNICATION_FAILURE, a)
    \<and> handleTemperatureDisplayUnitsSet u a = (Inl SERVICE_COMMUNICATION_FAILURE, a)"
  using assms by (simp add: handler_defs)

text \<open>
  C8 at a concrete input: an accessory constructed as not responding rejects all eight
  handlers and stays as constructed.
\<close>

theorem unresponsive_device_fails_first_witness:
  "isNotResponding (new_accessory left True)
   \<and> handleCurrentHeatingCoolingStateGet sampleMapper
        [FetchCurrentTemp, FetchTargetState, FetchTargetTemp]
        \<lparr>currentLevel_response = Inr 0, isOn_response = Inr True,
          targetLevel_response = Inr 30\<rparr> (new_accessory left True) =
       (Inl SERVICE_COMMUNICATION_FAILURE, new_accessory left True)
   \<and> handleCurrentTemperatureGet sampleMapper (Inr 30) (new_accessory left True) =
       (Inl SERVICE_COMMUNICATION_FAILURE, new_accessory left True)
   \<and> handleTargetTemperatureGet sampleMapper (Inr 30) (new_accessory left True) =
       (Inl SERVICE_COMMUNICATION_FAILURE, new_accessory left True)
   \<and> handleTargetTemperatureSet sampleMapper 30 (Inr 30) (new_accessory left True) =
       (Inl SERVICE_COMMUNICATION_FAILURE, new_accessory left True)
   \<and> handleTargetHeatingCoolingStateGet (Inr True) (new_accessory left True) =
       (Inl SERVICE_COMMUNICATION_FAILURE, new_accessory left True)
   \<and> handleTargetHeatingCoolingStateSet 3 (new_accessory left True) =
       (Inl SERVICE_COMMUNICATION_FAILURE, new_accessory left True)
   \<and> handleTemperatureDisplayUnitsGet (new_accessory left True) =
       (Inl SERVICE_COMMUNICATION_FAILURE, new_accessory left True)
   \<and> handleTemperatureDisplayUnitsSet 0 (new_accessory left True) =
       (Inl SERVICE_COMMUNICATION_FAILURE, new_accessory left True)"
proof -
  have h: "isNotResponding (new_accessory left True)"
    by (simp add: new_accessory_def)
  show ?thesis
    using h unresponsive_device_fails_first [OF h, of sampleMapper
        "[FetchCurrentTemp, FetchTargetState, FetchTargetTemp]"
        "\<lparr>currentLevel_response = Inr 0, isOn_response = Inr True,
          targetLevel_response = Inr 30\<rparr>" "Inr 30" "Inr 30" 30 "Inr 30" "Inr True" 3 0]
    by simp
qed

section \<open>Setting the target mode\<close>

text \<open>
  C7.  On a responsive accessory and for a requested target mode OFF (0) or AUTO (3),
  \<^verbatim>\<open>handleTargetHeatingCoolingStateSet\<close> succeeds; it issues one power command (on for 3,
  off for 0) when the requested value differs from the stored target mode and none when
  it is the same; it stores the requested value as the target mode in either case; and
  the stored current mode afterwards is the mode derived from the two temperatures and
  the requested value.
\<close>

theorem target_mode_set_power_command:
  assumes "\<not> isNotResponding a" and "v = 0 \<or> v = 3"
    and "a' = snd (handleTargetHeatingCoolingStateSet v a)"
  shows "fst (handleTargetHeatingCoolingStateSet v a) = Inr ()
    \<and> client_calls a' =
        client_calls a @
          (if TargetHeatingCoolingState (Thermostat_data a) \<noteq> v
           then [if v = 3 then turnOnAccessory else turnOffAccessory] else [])
    \<and> TargetHeatingCoolingState (Thermostat_data a') = v
    \<and> CurrentHeatingCoolingState (Thermostat_data a') =
        deriveCurrentMode (CurrentTemperature (Thermostat_data a))
          (TargetTemperature (Thermostat_data a)) v
    \<and> CurrentTemperature (Thermostat_data a') = CurrentTemperature (Thermostat_data a)
    \<and> TargetTemperature (Thermostat_data a') = TargetTemperature (Thermostat_data a)"
  using assms
  by (auto simp add: handleTargetHeatingCoolingStateSet_def ensureDeviceResponsiveness_def
      updateDeviceState_def trigger_effects say_def issue_def Let_def derived_mode_def)

text \<open>
  C7 at a concrete input: on the fresh accessory (stored target mode 0), setting 3 issues
  the power-on command and stores 3; setting 0 issues nothing.
\<close>

theorem target_mode_set_power_command_witness:
  "\<not> isNotResponding fresh
   \<and> fst (handleTargetHeatingCoolingStateSet 3 fresh) = Inr ()
   \<and> client_calls (snd (handleTargetHeatingCoolingStateSet 3 fresh)) = [turnOnAccessory]
   \<and> client_calls (snd (handleTargetHeatingCoolingStateSet 0 fresh)) = []
   \<and> TargetHeatingCoolingState
        (Thermostat_data (snd (handleTargetHeatingCoolingStateSet 3 fresh))) = 3"
proof -
  have h: "\<not> isNotResponding fresh"
    by (simp add: sample_defs)
  have f: "client_calls fresh = []" "TargetHeatingCoolingState (Thermostat_data fresh) = 0"
    by (simp_all add: sample_defs)
  show ?thesis
    using target_mode_set_power_command [OF h _ refl, of 3]
      target_mode_set_power_command [OF h _ refl, of 0] h f
    by simp
qed

section \<open>The stored mode and the derivation\<close>

lemma single_fetch_keeps_mode:
  "CurrentHeatingCoolingState (Thermostat_data (snd (handleCurrentTemperatureGet m r1 a))) =
     CurrentHeatingCoolingState (Thermostat_data a)
   \<and> CurrentHeatingCoolingState (Thermostat_data (snd (handleTargetTemperatureGet m r2 a))) =
     CurrentHeatingCoolingState (Thermostat_data a)
   \<and> CurrentHeatingCoolingState (Thermostat_data (snd (handleTargetHeatingCoolingStateGet r3 a))) =
     CurrentHeatingCoolingState (Thermostat_data a)"
  by (simp add: handler_defs fetchCurrentTemp_def fetchTargetTemp_def fetchTargetState_def
      fetch_defs say_def issue_def split: sum.splits)

text \<open>
  C3, as amended.  Every handler that recomputes the mode leaves the stored current mode
  equal to the derivation from the current temperature, the target temperature and the
  target mode when it returns normally: the two setters
  (\<^verbatim>\<open>handleTargetTemperatureSet\<close>, \<^verbatim>\<open>handleTargetHeatingCoolingStateSet\<close>) and the aggregate
  getter \<^verbatim>\<open>handleCurrentHeatingCoolingStateGet\<close>, which also returns that mode.  The three
  single-field getters store the fetched field and leave the stored current mode as it
  was.
\<close>

theorem recompute_restores_derived_mode:
  "(fst (handleTargetTemperatureSet m v r a) = Inr u \<longrightarrow>
      in_sync (snd (handleTargetTemperatureSet m v r a)))
   \<and> (fst (handleTargetHeatingCoolingStateSet w a) = Inr u' \<longrightarrow>
      in_sync (snd (handleTargetHeatingCoolingStateSet w a)))
   \<and> (fst (handleCurrentHeatingCoolingStateGet m order rs a) = Inr st \<longrightarrow>
      in_sync (snd (handleCurrentHeatingCoolingStateGet m order rs a))
      \<and> st = derived_mode
               (Thermostat_data (snd (handleCurrentHeatingCoolingStateGet m order rs a))))
   \<and> CurrentHeatingCoolingState (Thermostat_data (snd (handleCurrentTemperatureGet m r1 a))) =
       CurrentHeatingCoolingState (Thermostat_data a)
   \<and> CurrentHeatingCoolingState (Thermostat_data (snd (handleTargetTemperatureGet m r2 a))) =
       CurrentHeatingCoolingState (Thermostat_data a)
   \<and> CurrentHeatingCoolingState
         (Thermostat_data (snd (handleTargetHeatingCoolingStateGet r3 a))) =
       CurrentHeatingCoolingState (Thermostat_data a)"
proof (intro conjI impI)
  assume "fst (handleTargetTemperatureSet m v r a) = Inr u"
  then show "in_sync (snd (handleTargetTemperatureSet m v r a))"
    by (auto simp add: handleTargetTemperatureSet_def trigger_in_sync
        split: sum.splits prod.splits)
next
  assume "fst (handleTargetHeatingCoolingStateSet w a) = Inr u'"
  then show "in_sync (snd (handleTargetHeatingCoolingStateSet w a))"
    by (auto simp add: handleTargetHeatingCoolingStateSet_def Let_def trigger_in_sync
        split: sum.splits prod.splits)
next
  assume h: "fst (handleCurrentHeatingCoolingStateGet m order rs a) = Inr st"
  show "in_sync (snd (handleCurrentHeatingCoolingStateGet m order rs a))"
    using h
    by (auto simp add: handleCurrentHeatingCoolingStateGet_def fetchCurrentState_def Let_def
        trigger_effects in_sync_def derived_mode_def say_def
        split: sum.splits prod.splits option.splits)
  show "st = derived_mode
               (Thermostat_data (snd (handleCurrentHeatingCoolingStateGet m order rs a)))"
    using h
    by (auto simp add: handleCurrentHeatingCoolingStateGet_def fetchCurrentState_def Let_def
        trigger_effects in_sync_def derived_mode_def say_def
        split: sum.splits prod.splits option.splits)
qed (simp_all add: single_fetch_keeps_mode)

text \<open>
  C3 as amended, at concrete inputs: a target-temperature write, a target-mode write and
  an aggregate fetch on the fresh accessory return normally and leave the stored mode
  equal to the derivation.
\<close>

theorem recompute_restores_derived_mode_witness:
  "fst (handleTargetTemperatureSet sampleMapper 30 (Inr 31) fresh) = Inr ()
   \<and> in_sync (snd (handleTargetTemperatureSet sampleMapper 30 (Inr 31) fresh))
   \<and> fst (handleTargetHeatingCoolingStateSet 3 fresh) = Inr ()
   \<and> in_sync (snd (handleTargetHeatingCoolingStateSet 3 fresh))
   \<and> fst (handleCurrentHeatingCoolingStateGet sampleMapper
        [FetchCurrentTemp, FetchTargetState, FetchTargetTemp]
        \<lparr>currentLevel_response = Inr (- 70), isOn_response = Inr True,
          targetLevel_response = Inr 30\<rparr> fresh) = Inr HEAT
   \<and> in_sync (snd (handleCurrentHeatingCoolingStateGet sampleMapper
        [FetchCurrentTemp, FetchTargetState, FetchTargetTemp]
        \<lparr>currentLevel_response = Inr (- 70), isOn_response = Inr True,
          targetLevel_response = Inr 30\<rparr> fresh))"
proof -
  let ?order = "[FetchCurrentTemp, FetchTargetState, FetchTargetTemp]"
  let ?rs = "\<lparr>currentLevel_response = Inr (- 70), isOn_response = Inr True,
               targetLevel_response = Inr 30\<rparr>"
  have e1: "fst (handleTargetTemperatureSet sampleMapper 30 (Inr 31) fresh) = Inr ()"
    by (simp add: run_defs sample_defs)
  have e2: "fst (handleTargetHeatingCoolingStateSet 3 fresh) = Inr ()"
    by (simp add: run_defs sample_defs)
  have e3: "fst (handleCurrentHeatingCoolingStateGet sampleMapper ?order ?rs fresh) = Inr HEAT"
    by (simp add: fetchCurrentState_def run_defs sample_defs HEAT_def)
  show ?thesis
    using e1 e2 e3
      recompute_restores_derived_mode [of sampleMapper 30 "Inr 31" fresh "()" 3 "()"
        ?order ?rs HEAT]
    by simp
qed

text \<open>
  C3 as stated fails on a reachable accessory.  From the fresh accessory, set the target
  mode to AUTO and then read the current temperature (level -70, 20 degrees): the stored
  mode is still OFF, while the derivation from the three fields (20 degrees measured,
  target 0, AUTO) gives COOL.
\<close>

theorem single_fetch_leaves_mode_stale:
  "reachable sampleMapper
     (handle sampleMapper (CurrentTemperatureGet (Inr (- 70)))
        (handle sampleMapper (TargetHeatingCoolingStateSet 3) fresh))
   \<and> CurrentHeatingCoolingState (Thermostat_data
        (handle sampleMapper (CurrentTemperatureGet (Inr (- 70)))
           (handle sampleMapper (TargetHeatingCoolingStateSet 3) fresh))) = OFF
   \<and> derived_mode (Thermostat_data
        (handle sampleMapper (CurrentTemperatureGet (Inr (- 70)))
           (handle sampleMapper (TargetHeatingCoolingStateSet 3) fresh))) = COOL
   \<and> \<not> in_sync
        (handle sampleMapper (CurrentTemperatureGet (Inr (- 70)))
           (handle sampleMapper (TargetHeatingCoolingStateSet 3) fresh))"
proof -
  let ?a1 = "handle sampleMapper (TargetHeatingCoolingStateSet 3) fresh"
  let ?a2 = "handle sampleMapper (CurrentTemperatureGet (Inr (- 70))) ?a1"
  have "reachable sampleMapper fresh"
    unfolding fresh_def by (rule reachable.start)
  then have "reachable sampleMapper ?a1"
    by (rule reachable.step) simp
  then have r: "reachable sampleMapper ?a2"
    by (rule reachable.step) simp
  have d: "Thermostat_data ?a2 =
     \<lparr> CurrentHeatingCoolingState = 0, TargetHeatingCoolingState = 3,
       CurrentTemperature = 20, TargetTemperature = 0, TemperatureDisplayUnits = 1 \<rparr>"
    by (simp add: run_defs sample_defs OFF_def)
  have c: "CurrentHeatingCoolingState (Thermostat_data ?a2) = OFF"
    using d by (simp add: OFF_def)
  have m: "derived_mode (Thermostat_data ?a2) = COOL"
    using d by (simp add: derived_mode_def deriveCurrentMode_def toleranceC_def)
  have "\<not> in_sync ?a2"
    using c m by (simp add: in_sync_def OFF_def COOL_def)
  with r c m show ?thesis
    by blast
qed

end
